theory Spec2Isabelle
  imports Complex_Main "HOL-Library.Sublist"
begin

section \<open>The service worker (sw.js)\<close>

subsection \<open>Cache storage\<close>

text \<open>
  A response seen by the service worker is either an HTTP response with a status and a
  body, or the network-error response that \<^verbatim>\<open>Response.error()\<close> builds.
\<close>

datatype sw_response = HttpResponse nat string | NetworkError

text \<open>\<^verbatim>\<open>fetch\<close> either resolves with a response (of any status) or rejects.\<close>

datatype fetch_result = Fulfilled sw_response | Rejected

text \<open>
  One named store maps a request (its URL) to the stored response. The cache storage is
  the list of the named stores, in creation order, as \<^verbatim>\<open>caches.keys()\<close>
  enumerates them.
\<close>

type_synonym cache = "string \<rightharpoonup> sw_response"
type_synonym cache_storage = "(string \<times> cache) list"

definition VERSION :: string where
  "VERSION = ''v1.2.0''"

text \<open>
  The two store names are derived from the version tag; they take the tag as an argument
  so that a statement can speak about any current version.
\<close>

definition APP_CACHE :: "string \<Rightarrow> string" where
  "APP_CACHE ver = ''mapsketch-app-'' @ ver"

definition RUNTIME_CACHE :: "string \<Rightarrow> string" where
  "RUNTIME_CACHE ver = ''mapsketch-runtime-'' @ ver"

definition caches_keys :: "cache_storage \<Rightarrow> string list" where
  "caches_keys cs = map fst cs"

definition caches_delete :: "string \<Rightarrow> cache_storage \<Rightarrow> cache_storage" where
  "caches_delete k cs = filter (\<lambda>e. fst e \<noteq> k) cs"

text \<open>\<^verbatim>\<open>caches.open(name)\<close> returns the store of that name and creates it when missing.\<close>

definition caches_open :: "string \<Rightarrow> cache_storage \<Rightarrow> cache \<times> cache_storage" where
  "caches_open n cs =
     (case map_of cs n of
        Some c \<Rightarrow> (c, cs)
      | None \<Rightarrow> (Map.empty, cs @ [(n, Map.empty)]))"

text \<open>
  \<^verbatim>\<open>c.put(request, response)\<close> on the store named \<open>n\<close>; the store is taken to
  keep whatever response it is given.
\<close>

definition cache_put :: "string \<Rightarrow> string \<Rightarrow> sw_response \<Rightarrow> cache_storage \<Rightarrow> cache_storage" where
  "cache_put n url res cs = map (\<lambda>e. if fst e = n then (fst e, (snd e)(url \<mapsto> res)) else e) cs"

subsection \<open>The activate handler\<close>

text \<open>
  \<^verbatim>\<open>keys.map(k => (k===APP_CACHE||k===RUNTIME_CACHE) ? null : caches.delete(k))\<close>:
  every enumerated name that is neither current name is deleted.
\<close>

definition activate :: "string \<Rightarrow> cache_storage \<Rightarrow> cache_storage" where
  "activate ver cs =
     fold (\<lambda>k s. if k = APP_CACHE ver \<or> k = RUNTIME_CACHE ver then s else caches_delete k s)
          (caches_keys cs) cs"

subsection \<open>The fetch handler\<close>

datatype strategy = NetworkFirst | CacheFirst | StaleWhileRevalidate | NotIntercepted

definition static_extensions :: "string list" where
  "static_extensions =
     [''.css'', ''.js'', ''.png'', ''.jpg'', ''.svg'', ''.webp'', ''.ico'', ''.json'']"

text \<open>The three tests of the handler, in the order the handler makes them.\<close>

definition classify_fetch :: "string \<Rightarrow> string \<Rightarrow> strategy" where
  "classify_fetch pathname host =
     (if pathname = ''/'' \<or> suffix ''/index.html'' pathname then NetworkFirst
      else if \<exists>e \<in> set static_extensions. suffix e pathname then CacheFirst
      else if suffix ''tile.openstreetmap.org'' host then StaleWhileRevalidate
      else NotIntercepted)"

text \<open>
  The network-first branch. When the fetch resolves, whatever its status, the response
  is put into the app store and returned; the \<^verbatim>\<open>catch\<close> block runs when the
  fetch rejects and answers from the app store, or with \<^verbatim>\<open>Response.error()\<close>.
\<close>

definition network_first ::
  "string \<Rightarrow> string \<Rightarrow> fetch_result \<Rightarrow> cache_storage \<Rightarrow> sw_response \<times> cache_storage" where
  "network_first ver url net cs =
     (case net of
        Fulfilled res \<Rightarrow>
          (let (c, cs1) = caches_open (APP_CACHE ver) cs
           in (res, cache_put (APP_CACHE ver) url res cs1))
      | Rejected \<Rightarrow>
          (let (c, cs1) = caches_open (APP_CACHE ver) cs
           in (case c url of Some hit \<Rightarrow> (hit, cs1) | None \<Rightarrow> (NetworkError, cs1))))"

section \<open>The edge proxy (map-api-proxy/src/index.js)\<close>

subsection \<open>JavaScript numbers\<close>

text \<open>
  A JavaScript number is modelled as an exact real, one of the two infinities, or NaN.
  Arithmetic on finite values is exact: the rounding of binary64, overflow to an
  infinity and the sign of zero are not modelled. NaN propagates through every
  operation and makes every comparison false, as in the language.
\<close>

datatype jsnum = NaN | PInf | NInf | Fin real

definition inf_of_sign :: "bool \<Rightarrow> jsnum" where
  "inf_of_sign neg = (if neg then NInf else PInf)"

fun jneg :: "jsnum \<Rightarrow> jsnum" where
  "jneg NaN = NaN"
| "jneg PInf = NInf"
| "jneg NInf = PInf"
| "jneg (Fin a) = Fin (- a)"

fun jadd :: "jsnum \<Rightarrow> jsnum \<Rightarrow> jsnum" where
  "jadd (Fin a) (Fin b) = Fin (a + b)"
| "jadd NaN y = NaN"
| "jadd x NaN = NaN"
| "jadd PInf NInf = NaN"
| "jadd NInf PInf = NaN"
| "jadd PInf y = PInf"
| "jadd NInf y = NInf"
| "jadd x PInf = PInf"
| "jadd x NInf = NInf"

definition jsub :: "jsnum \<Rightarrow> jsnum \<Rightarrow> jsnum" where
  "jsub x y = jadd x (jneg y)"

fun jmul :: "jsnum \<Rightarrow> jsnum \<Rightarrow> jsnum" where
  "jmul (Fin a) (Fin b) = Fin (a * b)"
| "jmul NaN y = NaN"
| "jmul x NaN = NaN"
| "jmul PInf PInf = PInf"
| "jmul PInf NInf = NInf"
| "jmul NInf PInf = NInf"
| "jmul NInf NInf = PInf"
| "jmul PInf (Fin b) = (if b = 0 then NaN else inf_of_sign (b < 0))"
| "jmul NInf (Fin b) = (if b = 0 then NaN else inf_of_sign (0 < b))"
| "jmul (Fin a) PInf = (if a = 0 then NaN else inf_of_sign (a < 0))"
| "jmul (Fin a) NInf = (if a = 0 then NaN else inf_of_sign (0 < a))"

text \<open>Division; a zero divisor is taken as positive zero.\<close>

fun jdiv :: "jsnum \<Rightarrow> jsnum \<Rightarrow> jsnum" where
  "jdiv (Fin a) (Fin b) =
     (if b = 0 then (if a = 0 then NaN else inf_of_sign (a < 0)) else Fin (a / b))"
| "jdiv NaN y = NaN"
| "jdiv x NaN = NaN"
| "jdiv (Fin a) PInf = Fin 0"
| "jdiv (Fin a) NInf = Fin 0"
| "jdiv PInf (Fin b) = inf_of_sign (b < 0)"
| "jdiv NInf (Fin b) = inf_of_sign (0 \<le> b)"
| "jdiv x y = NaN"

fun jabs :: "jsnum \<Rightarrow> jsnum" where
  "jabs NaN = NaN"
| "jabs PInf = PInf"
| "jabs NInf = PInf"
| "jabs (Fin a) = Fin \<bar>a\<bar>"

fun jlt :: "jsnum \<Rightarrow> jsnum \<Rightarrow> bool" where
  "jlt (Fin a) (Fin b) = (a < b)"
| "jlt NaN y = False"
| "jlt x NaN = False"
| "jlt NInf NInf = False"
| "jlt NInf y = True"
| "jlt PInf y = False"
| "jlt (Fin a) PInf = True"
| "jlt (Fin a) NInf = False"

definition jgt :: "jsnum \<Rightarrow> jsnum \<Rightarrow> bool" where
  "jgt x y = jlt y x"

fun jexp :: "jsnum \<Rightarrow> jsnum" where
  "jexp NaN = NaN"
| "jexp PInf = PInf"
| "jexp NInf = Fin 0"
| "jexp (Fin a) = Fin (exp a)"

fun jatan :: "jsnum \<Rightarrow> jsnum" where
  "jatan NaN = NaN"
| "jatan PInf = Fin (pi / 2)"
| "jatan NInf = Fin (- pi / 2)"
| "jatan (Fin a) = Fin (arctan a)"

definition Math_PI :: jsnum where
  "Math_PI = Fin pi"

subsection \<open>The built-ins \<^verbatim>\<open>parseFloat\<close> and \<^verbatim>\<open>String.prototype.split\<close>\<close>

text \<open>
  A string is the list of its characters, each a code unit below 256.
  \<^verbatim>\<open>parseFloat\<close> skips leading white space and reads the longest prefix that is a
  decimal literal: an optional sign, then \<^verbatim>\<open>Infinity\<close> or digits with an optional
  fraction and an optional exponent. Text after that prefix is ignored; when there is
  no such prefix the result is NaN.
\<close>

definition is_ws :: "char \<Rightarrow> bool" where
  "is_ws c = (c \<in> set [CHR 0x09, CHR 0x0A, CHR 0x0B, CHR 0x0C, CHR 0x0D, CHR '' '', CHR 0xA0])"

definition digit_val :: "char \<Rightarrow> nat option" where
  "digit_val c = map_of (zip ''0123456789'' [0, 1, 2, 3, 4, 5, 6, 7, 8, 9]) c"

definition is_digit :: "char \<Rightarrow> bool" where
  "is_digit c = (digit_val c \<noteq> None)"

definition digits_val :: "string \<Rightarrow> nat" where
  "digits_val ds = foldl (\<lambda>n d. 10 * n + (case digit_val d of Some v \<Rightarrow> v | None \<Rightarrow> 0)) 0 ds"

definition take_sign :: "string \<Rightarrow> bool \<times> string" where
  "take_sign s =
     (case s of
        [] \<Rightarrow> (False, s)
      | c # r \<Rightarrow> if c = CHR ''-'' then (True, r) else if c = CHR ''+'' then (False, r) else (False, s))"

text \<open>The exponent part, when one can be read at the head of the text; otherwise 0.\<close>

definition exponent_part :: "string \<Rightarrow> int" where
  "exponent_part s =
     (case s of
        [] \<Rightarrow> 0
      | c # r \<Rightarrow>
          if c = CHR ''e'' \<or> c = CHR ''E'' then
            (let ds = takeWhile is_digit (snd (take_sign r))
             in if ds = [] then 0
                else if fst (take_sign r) then - int (digits_val ds) else int (digits_val ds))
          else 0)"

definition parseFloat :: "string \<Rightarrow> jsnum" where
  "parseFloat str =
     (let neg = fst (take_sign (dropWhile is_ws str));
          u = snd (take_sign (dropWhile is_ws str))
      in if prefix ''Infinity'' u then inf_of_sign neg
         else
           (let ip = takeWhile is_digit u;
                r1 = dropWhile is_digit u;
                dot = (r1 \<noteq> [] \<and> hd r1 = CHR ''.'');
                fp = (if dot then takeWhile is_digit (tl r1) else []);
                r2 = (if dot then dropWhile is_digit (tl r1) else r1)
            in if ip = [] \<and> fp = [] then NaN
               else
                 (let m = real (digits_val ip) + real (digits_val fp) / 10 ^ length fp
                  in Fin ((if neg then - m else m) * 10 powi exponent_part r2))))"

text \<open>\<^verbatim>\<open>s.split(',')\<close>: the fields between the commas; the empty string has one empty field.\<close>

fun split_comma :: "string \<Rightarrow> string list" where
  "split_comma [] = [[]]"
| "split_comma (c # cs) =
     (if c = CHR '','' then [] # split_comma cs
      else (case split_comma cs of [] \<Rightarrow> [[c]] | p # ps \<Rightarrow> (c # p) # ps))"

subsection \<open>\<^verbatim>\<open>detectRegion\<close>\<close>

datatype region = England | Scotland | Wales | Northern_Ireland

text \<open>
  The guess of the coordinate system and the conversion from Web Mercator, as
  \<^verbatim>\<open>detectRegion\<close> computes them from the centre of the box.
\<close>

definition toLonLat :: "jsnum \<Rightarrow> jsnum \<Rightarrow> jsnum \<times> jsnum" where
  "toLonLat centerX centerY =
     (if jgt (jabs centerX) (Fin 20000) \<or> jgt (jabs centerY) (Fin 20000) then
        (let originShift = jdiv (jmul (jmul (Fin 2) Math_PI) (Fin 6378137)) (Fin 2.0);
             centerLon = jmul (jdiv centerX originShift) (Fin 180.0);
             latRad = jmul (jdiv centerY originShift) Math_PI;
             centerLat = jmul (jsub (jmul (jatan (jexp latRad)) (Fin 2)) (jdiv Math_PI (Fin 2)))
                              (jdiv (Fin 180.0) Math_PI)
         in (centerLon, centerLat))
      else (centerX, centerY))"

text \<open>The four tests on the centre, in the order of the source.\<close>

definition classifyRegion :: "jsnum \<Rightarrow> jsnum \<Rightarrow> region" where
  "classifyRegion centerLon centerLat =
     (if jgt centerLat (Fin 55.3) then Scotland
      else if jlt centerLon (Fin (- 2.5)) \<and> jgt centerLat (Fin 51.3) \<and> jlt centerLat (Fin 53.5)
        then Wales
      else if jlt centerLon (Fin (- 5.5)) \<and> jgt centerLat (Fin 54.0) \<and> jlt centerLat (Fin 55.5)
        then Northern_Ireland
      else England)"

text \<open>The centre of the four parsed coordinates, as longitude and latitude.\<close>

definition bboxCenter :: "jsnum list \<Rightarrow> jsnum \<times> jsnum" where
  "bboxCenter coords =
     (let minX = coords ! 0; minY = coords ! 1; maxX = coords ! 2; maxY = coords ! 3;
          centerX = jdiv (jadd minX maxX) (Fin 2);
          centerY = jdiv (jadd minY maxY) (Fin 2)
      in toLonLat centerX centerY)"

definition detectRegion :: "string \<Rightarrow> region" where
  "detectRegion bboxString =
     (let coords = map parseFloat (split_comma bboxString)
      in if length coords \<noteq> 4 then England
         else classifyRegion (fst (bboxCenter coords)) (snd (bboxCenter coords)))"

text \<open>
  The coordinate transform in the words of the specification: Web Mercator when
  \<open>|x| > 20000\<close> or \<open>|y| > 20000\<close>, with \<open>originShift = \<pi> \<cdot> 6378137\<close>,
  \<open>lon = (x / originShift) \<cdot> 180\<close> and
  \<open>lat = (2 \<cdot> atan(exp((y / originShift) \<cdot> \<pi>)) - \<pi>/2) \<cdot> (180/\<pi>)\<close>; otherwise the pair
  unchanged.
\<close>

definition spec_transform :: "jsnum \<Rightarrow> jsnum \<Rightarrow> jsnum \<times> jsnum" where
  "spec_transform x y =
     (if jgt (jabs x) (Fin 20000) \<or> jgt (jabs y) (Fin 20000) then
        (let originShift = jmul Math_PI (Fin 6378137)
         in (jmul (jdiv x originShift) (Fin 180),
             jmul (jsub (jmul (Fin 2) (jatan (jexp (jmul (jdiv y originShift) Math_PI))))
                        (jdiv Math_PI (Fin 2)))
                  (jdiv (Fin 180) Math_PI)))
      else (x, y))"

subsection \<open>JSON values\<close>

text \<open>
  The value that \<^verbatim>\<open>JSON.parse\<close> builds. An object is the list of its own
  properties in enumeration order; a number is carried as the text that
  \<^verbatim>\<open>JSON.stringify\<close> prints for it.
\<close>

datatype json =
    JNull
  | JBool bool
  | JNum string
  | JStr string
  | JArr "json list"
  | JObj "(string \<times> json) list"

text \<open>Truthiness: null, false, zero and the empty string are falsy.\<close>

fun truthy :: "json \<Rightarrow> bool" where
  "truthy JNull = False"
| "truthy (JBool b) = b"
| "truthy (JNum t) = (t \<noteq> ''0'')"
| "truthy (JStr s) = (s \<noteq> [])"
| "truthy (JArr xs) = True"
| "truthy (JObj kvs) = True"

definition hex_digit :: "nat \<Rightarrow> char" where
  "hex_digit n = ''0123456789abcdef'' ! (n mod 16)"

definition escape_char :: "char \<Rightarrow> string" where
  "escape_char c =
     (if c = CHR 0x22 then [CHR 0x5C, CHR 0x22]
      else if c = CHR 0x5C then [CHR 0x5C, CHR 0x5C]
      else if c = CHR 0x08 then [CHR 0x5C, CHR ''b'']
      else if c = CHR 0x0C then [CHR 0x5C, CHR ''f'']
      else if c = CHR 0x0A then [CHR 0x5C, CHR ''n'']
      else if c = CHR 0x0D then [CHR 0x5C, CHR ''r'']
      else if c = CHR 0x09 then [CHR 0x5C, CHR ''t'']
      else if (of_char c :: nat) < 32
        then [CHR 0x5C, CHR ''u'', CHR ''0'', CHR ''0'', hex_digit (of_char c div 16), hex_digit (of_char c)]
      else [c])"

definition quote :: "string \<Rightarrow> string" where
  "quote s = [CHR 0x22] @ concat (map escape_char s) @ [CHR 0x22]"

fun join_comma :: "string list \<Rightarrow> string" where
  "join_comma [] = []"
| "join_comma [x] = x"
| "join_comma (x # y # ys) = x @ '','' @ join_comma (y # ys)"

text \<open>\<^verbatim>\<open>JSON.stringify(value)\<close> without indentation.\<close>

fun stringify :: "json \<Rightarrow> string" where
  "stringify JNull = ''null''"
| "stringify (JBool b) = (if b then ''true'' else ''false'')"
| "stringify (JNum t) = t"
| "stringify (JStr s) = quote s"
| "stringify (JArr xs) = ''['' @ join_comma (map stringify xs) @ '']''"
| "stringify (JObj kvs) =
     ''{'' @ join_comma (map (\<lambda>kv. quote (fst kv) @ '':'' @ stringify (snd kv)) kvs) @ ''}''"

text \<open>
  An array index is a decimal numeral without a leading zero. \<open>get_prop\<close> reads an own
  property of an object or an element of an array; \<open>None\<close> stands for
  \<^verbatim>\<open>undefined\<close>. What JavaScript finds besides those (the length of an array or
  of a string, a character of a string, a method of a prototype) is a value that has
  neither a \<^verbatim>\<open>sources\<close> nor a \<^verbatim>\<open>url\<close> property, so the tests of the
  rewriter come out as for \<^verbatim>\<open>undefined\<close>.
\<close>

definition array_index :: "string \<Rightarrow> nat option" where
  "array_index k =
     (if k \<noteq> [] \<and> list_all is_digit k \<and> (k = ''0'' \<or> hd k \<noteq> CHR ''0'')
      then Some (digits_val k) else None)"

fun get_prop :: "json \<Rightarrow> string \<Rightarrow> json option" where
  "get_prop (JObj kvs) k = map_of kvs k"
| "get_prop (JArr xs) k =
     (case array_index k of
        None \<Rightarrow> None
      | Some i \<Rightarrow> if i < length xs then Some (xs ! i) else None)"
| "get_prop j k = None"

text \<open>Assignment to a property: an existing one keeps its place, a new one goes last.\<close>

fun assign :: "string \<Rightarrow> json \<Rightarrow> (string \<times> json) list \<Rightarrow> (string \<times> json) list" where
  "assign k v [] = [(k, v)]"
| "assign k v (p # ps) = (if fst p = k then (k, v) # ps else p # assign k v ps)"

fun set_prop :: "json \<Rightarrow> string \<Rightarrow> json \<Rightarrow> json" where
  "set_prop (JObj kvs) k v = JObj (assign k v kvs)"
| "set_prop (JArr xs) k v =
     (case array_index k of
        None \<Rightarrow> JArr xs
      | Some i \<Rightarrow> if i < length xs then JArr (xs[i := v]) else JArr xs)"
| "set_prop j k v = j"

fun delete_prop :: "json \<Rightarrow> string \<Rightarrow> json" where
  "delete_prop (JObj kvs) k = JObj (filter (\<lambda>p. fst p \<noteq> k) kvs)"
| "delete_prop j k = j"

subsection \<open>The redaction pass\<close>

text \<open>
  \<^verbatim>\<open>[^"&]\<close>: a character of the key value. \<open>key_at d s\<close> says that the pattern
  \<^verbatim>\<open>d key=[^"&]+\<close> matches at the head of \<open>s\<close>.
\<close>

definition key_char :: "char \<Rightarrow> bool" where
  "key_char c = (c \<noteq> CHR 0x22 \<and> c \<noteq> CHR ''&'')"

definition key_at :: "char \<Rightarrow> string \<Rightarrow> bool" where
  "key_at d s =
     (case s of
        [] \<Rightarrow> False
      | c # cs \<Rightarrow> c = d \<and> take 4 cs = ''key='' \<and> drop 4 cs \<noteq> [] \<and> key_char (hd (drop 4 cs)))"

text \<open>
  \<^verbatim>\<open>text.replace(/d key=[^"&]+/g, '')\<close>: scanning from the left, every match (taken
  as long as possible) is dropped and the scan goes on after it.
\<close>

function strip_key :: "char \<Rightarrow> string \<Rightarrow> string" where
  "strip_key d [] = []"
| "strip_key d (c # cs) =
     (if key_at d (c # cs) then strip_key d (dropWhile key_char (drop 4 cs))
      else c # strip_key d cs)"
  by pat_completeness auto
termination
proof (relation "measure (\<lambda>(d, s). length s)")
  show "wf (measure (\<lambda>(d, s). length s))" by simp
next
  fix d :: char and c :: char and cs :: string
  have "length (dropWhile key_char (drop 4 cs)) \<le> length (drop 4 cs)"
    by (rule length_dropWhile_le)
  then show "((d, dropWhile key_char (drop 4 cs)), (d, c # cs)) \<in> measure (\<lambda>(d, s). length s)"
    by simp
next
  fix d :: char and c :: char and cs :: string
  show "((d, cs), (d, c # cs)) \<in> measure (\<lambda>(d, s). length s)" by simp
qed

definition redact :: "string \<Rightarrow> string" where
  "redact jsonText = strip_key (CHR ''&'') (strip_key (CHR ''?'') jsonText)"

text \<open>Some place of the text where the pattern matches.\<close>

fun has_key :: "char \<Rightarrow> string \<Rightarrow> bool" where
  "has_key d [] = False"
| "has_key d (c # cs) = (key_at d (c # cs) \<or> has_key d cs)"

subsection \<open>The style rewrite of the JSON branch\<close>

datatype js_error = TypeError string | SyntaxError string

definition tiles_template :: "string \<Rightarrow> string \<Rightarrow> string" where
  "tiles_template origin collectionId =
     origin @ ''?service=tiles&collection='' @ collectionId @ ''&path=tiles/3857/{z}/{y}/{x}''"

text \<open>
  The rewrite of the source keyed by the collection. Reading \<^verbatim>\<open>.url.replace\<close> of
  a truthy \<^verbatim>\<open>url\<close> that is no string throws.
\<close>

definition rewriteSource :: "string \<Rightarrow> string \<Rightarrow> json \<Rightarrow> json \<Rightarrow> js_error + json" where
  "rewriteSource origin collectionId sources data =
     (case get_prop sources collectionId of
        None \<Rightarrow> Inr data
      | Some src \<Rightarrow>
          (case get_prop src ''url'' of
             None \<Rightarrow> Inr data
           | Some u \<Rightarrow>
               if \<not> truthy u then Inr data
               else (case u of
                  JStr sourceUrl \<Rightarrow>
                    Inr (set_prop data ''sources''
                          (set_prop sources collectionId
                            (delete_prop
                              (set_prop src ''tiles'' (JArr [JStr (tiles_template origin collectionId)]))
                              ''url'')))
                | _ \<Rightarrow> Inl (TypeError ''data.sources[collectionId].url.replace is not a function''))))"

text \<open>
  The block guarded by \<^verbatim>\<open>data.sources && serviceType === 'tiles'\<close>. Reading a
  property of \<^verbatim>\<open>null\<close> throws.
\<close>

definition rewriteStyle :: "string \<Rightarrow> string \<Rightarrow> string \<Rightarrow> json \<Rightarrow> js_error + json" where
  "rewriteStyle origin serviceType collectionId data =
     (if data = JNull then Inl (TypeError ''Cannot read properties of null (reading 'sources')'')
      else (case get_prop data ''sources'' of
         None \<Rightarrow> Inr data
       | Some sources \<Rightarrow>
           if truthy sources \<and> serviceType = ''tiles'' then
             (case rewriteSource origin collectionId sources data of
                Inl e \<Rightarrow> Inl e
              | Inr data1 \<Rightarrow> Inr (delete_prop (delete_prop data1 ''center'') ''zoom''))
           else Inr data))"

text \<open>The JSON branch: rewrite, serialise, redact.\<close>

definition rewriteJson :: "string \<Rightarrow> string \<Rightarrow> string \<Rightarrow> json \<Rightarrow> js_error + string" where
  "rewriteJson origin serviceType collectionId data =
     (case rewriteStyle origin serviceType collectionId data of
        Inl e \<Rightarrow> Inl e
      | Inr data1 \<Rightarrow> Inr (redact (stringify data1)))"

subsection \<open>Query parameters\<close>

text \<open>\<^verbatim>\<open>URLSearchParams\<close>: the decoded name-value pairs in their order.\<close>

type_synonym params = "(string \<times> string) list"

definition sp_get :: "params \<Rightarrow> string \<Rightarrow> string option" where
  "sp_get sp k = map_of sp k"

definition sp_has :: "params \<Rightarrow> string \<Rightarrow> bool" where
  "sp_has sp k = (k \<in> set (map fst sp))"

text \<open>
  \<^verbatim>\<open>set\<close> gives the first pair of that name the value and removes the other pairs of
  that name; without such a pair it appends one.
\<close>

fun sp_set :: "params \<Rightarrow> string \<Rightarrow> string \<Rightarrow> params" where
  "sp_set [] k v = [(k, v)]"
| "sp_set (p # ps) k v =
     (if fst p = k then (k, v) # filter (\<lambda>q. fst q \<noteq> k) ps else p # sp_set ps k v)"

text \<open>\<^verbatim>\<open>a || b\<close> on two results of \<^verbatim>\<open>get\<close>: null and the empty string are falsy.\<close>

definition js_or :: "string option \<Rightarrow> string option \<Rightarrow> string option" where
  "js_or a b = (case a of None \<Rightarrow> b | Some s \<Rightarrow> if s = [] then b else Some s)"

definition truthy_str :: "string option \<Rightarrow> bool" where
  "truthy_str a = (case a of None \<Rightarrow> False | Some s \<Rightarrow> s \<noteq> [])"

text \<open>
  \<^verbatim>\<open>toLowerCase\<close> on the letters A to Z; no other character lower-cases to a letter
  of the words \<^verbatim>\<open>service\<close> and \<^verbatim>\<open>lidar\<close> that the results are compared with.
\<close>

definition lower_char :: "char \<Rightarrow> char" where
  "lower_char c =
     (case map_of (zip ''ABCDEFGHIJKLMNOPQRSTUVWXYZ'' ''abcdefghijklmnopqrstuvwxyz'') c of
        None \<Rightarrow> c
      | Some l \<Rightarrow> l)"

definition toLowerCase :: "string \<Rightarrow> string" where
  "toLowerCase s = map lower_char s"

subsection \<open>Requests, responses and the LiDAR route\<close>

text \<open>A request: \<^verbatim>\<open>request.method\<close>, and the origin and the query of its URL.\<close>

record request =
  req_method :: string
  origin :: string
  searchParams :: params

record response =
  status :: nat
  headers :: "(string \<times> string) list"
  body :: string

text \<open>
  What the handler does with a request: answer at once, or send one request upstream
  (to a regional WMS, or to the OS NGD API with the method of the request).
\<close>

datatype action =
    Respond response
  | FetchWMS string params
  | FetchNGD string string params

record wms_config =
  url :: string
  layers :: string

definition getWMSConfig :: "region \<Rightarrow> wms_config" where
  "getWMSConfig r =
     (case r of
        England \<Rightarrow>
          \<lparr>url = ''https://environment.data.gov.uk/spatialdata/lidar-composite-digital-terrain-model-dtm-1m/wms'',
           layers = ''Lidar_Composite_Hillshade_DTM_1m''\<rparr>
      | Scotland \<Rightarrow>
          \<lparr>url = ''https://environment.data.gov.uk/spatialdata/lidar-composite-digital-terrain-model-dtm-1m/wms'',
           layers = ''Lidar_Composite_Hillshade_DTM_1m''\<rparr>
      | Wales \<Rightarrow>
          \<lparr>url = ''https://environment.data.gov.uk/spatialdata/lidar-composite-digital-terrain-model-dtm-1m/wms'',
           layers = ''Lidar_Composite_Hillshade_DTM_1m''\<rparr>
      | Northern_Ireland \<Rightarrow>
          \<lparr>url = ''https://environment.data.gov.uk/spatialdata/lidar-composite-digital-terrain-model-dtm-1m/wms'',
           layers = ''Lidar_Composite_Hillshade_DTM_1m''\<rparr>)"

text \<open>The region of a LiDAR request: from the box when there is one, else england.\<close>

definition lidarRegion :: "params \<Rightarrow> region" where
  "lidarRegion sp =
     (case js_or (sp_get sp ''BBOX'') (sp_get sp ''bbox'') of
        None \<Rightarrow> England
      | Some bbox \<Rightarrow> if bbox = [] then England else detectRegion bbox)"

text \<open>
  The parameters of the outbound WMS request: the copy loop, the \<^verbatim>\<open>SERVICE\<close>
  default and the \<^verbatim>\<open>set('LAYERS', layers)\<close>.
\<close>

definition wmsParams :: "params \<Rightarrow> string \<Rightarrow> params" where
  "wmsParams sp lyrs =
     (let copied = filter (\<lambda>p. \<not> (toLowerCase (fst p) = ''service'' \<and> toLowerCase (snd p) = ''lidar'')) sp;
          served = (if \<not> sp_has copied ''SERVICE'' \<and> \<not> sp_has copied ''service''
                    then sp_set copied ''SERVICE'' ''WMS'' else copied)
      in sp_set served ''LAYERS'' lyrs)"

definition handleLidarRequest :: "params \<Rightarrow> action" where
  "handleLidarRequest sp =
     (let wmsConfig = getWMSConfig (lidarRegion sp)
      in FetchWMS (url wmsConfig) (wmsParams sp (layers wmsConfig)))"

subsection \<open>The \<^verbatim>\<open>fetch\<close> handler\<close>

definition json_headers :: "(string \<times> string) list" where
  "json_headers = [(''Content-Type'', ''application/json''), (''Access-Control-Allow-Origin'', ''*'')]"

definition preflight :: response where
  "preflight =
     \<lparr>status = 200,
      headers = [(''Access-Control-Allow-Origin'', ''*''),
                 (''Access-Control-Allow-Methods'', ''GET, POST, OPTIONS''),
                 (''Access-Control-Allow-Headers'', ''Content-Type''),
                 (''Access-Control-Max-Age'', ''86400'')],
      body = []\<rparr>"

definition missing_service :: response where
  "missing_service =
     \<lparr>status = 400, headers = json_headers,
      body = stringify (JObj
        [(''error'', JStr ''Missing service parameter''),
         (''usage'', JStr ''Add ?service=tiles, ?service=features, or ?service=lidar'')])\<rparr>"

definition invalid_service :: response where
  "invalid_service =
     \<lparr>status = 400, headers = json_headers,
      body = stringify (JObj
        [(''error'', JStr ''Invalid service type''),
         (''validTypes'', JArr [JStr ''tiles'', JStr ''features'', JStr ''lidar''])])\<rparr>"

text \<open>The query parameters that go on to the OS NGD API.\<close>

definition additionalParams :: "params \<Rightarrow> params" where
  "additionalParams sp = filter (\<lambda>p. fst p \<notin> set [''service'', ''collection'', ''path'']) sp"

definition collectionOf :: "params \<Rightarrow> string" where
  "collectionOf sp = (case js_or (sp_get sp ''collection'') (Some ''ngd-base'') of Some c \<Rightarrow> c | None \<Rightarrow> ''ngd-base'')"

definition pathOf :: "params \<Rightarrow> string" where
  "pathOf sp = (case js_or (sp_get sp ''path'') (Some []) of Some p \<Rightarrow> p | None \<Rightarrow> [])"

text \<open>
  The handler up to the upstream request. \<open>apiKey\<close> is the credential of the
  environment; the URL of \<open>FetchNGD\<close> ends with it, and the additional parameters
  follow it in the request.
\<close>

definition fetch :: "string \<Rightarrow> request \<Rightarrow> action" where
  "fetch apiKey req =
     (if req_method req = ''OPTIONS'' then Respond preflight
      else
        (let sp = searchParams req;
             serviceType = sp_get sp ''service'';
             hasWMSParams = (sp_has sp ''BBOX'' \<or> sp_has sp ''bbox'');
             hasServiceParam = (sp_has sp ''SERVICE'' \<or> sp_has sp ''service'')
         in if hasWMSParams \<and> (serviceType = Some ''lidar'' \<or> hasServiceParam)
              then handleLidarRequest sp
            else if \<not> truthy_str serviceType then Respond missing_service
            else if serviceType = Some ''lidar'' then handleLidarRequest sp
            else if serviceType = Some ''tiles'' then
              FetchNGD (req_method req)
                (if pathOf sp \<noteq> []
                 then ''https://api.os.uk/maps/vector/ngd/ota/v1/collections/'' @ collectionOf sp
                        @ ''/'' @ pathOf sp @ ''?key='' @ apiKey
                 else ''https://api.os.uk/maps/vector/ngd/ota/v1/collections/'' @ collectionOf sp
                        @ ''/styles/3857?key='' @ apiKey)
                (additionalParams sp)
            else if serviceType = Some ''features'' then
              FetchNGD (req_method req)
                (''https://api.os.uk/features/ngd/ofa/v1/'' @ pathOf sp @ ''?key='' @ apiKey)
                (additionalParams sp)
            else Respond invalid_service))"

text \<open>
  The answer of the OS NGD API: its status, its content-type header, its body, and
  what \<^verbatim>\<open>apiResponse.json()\<close> makes of the body: the parsed value, or the error
  that it throws when the body is no JSON text.
\<close>

record upstream =
  up_status :: nat
  up_content_type :: "string option"
  up_body :: string
  up_json :: "js_error + json"

definition error_message :: "js_error \<Rightarrow> string" where
  "error_message e = (case e of TypeError m \<Rightarrow> m | SyntaxError m \<Rightarrow> m)"

definition proxy_failed :: "js_error \<Rightarrow> response" where
  "proxy_failed e =
     \<lparr>status = 500, headers = json_headers,
      body = stringify (JObj
        [(''error'', JStr ''Proxy request failed''), (''message'', JStr (error_message e))])\<rparr>"

definition data_headers :: "string \<Rightarrow> (string \<times> string) list" where
  "data_headers contentType =
     [(''Content-Type'', contentType), (''Access-Control-Allow-Origin'', ''*''),
      (''Cache-Control'', ''public, max-age=3600'')]"

text \<open>The handler after the answer of the OS NGD API, for a tiles or a features request.\<close>

definition respond :: "request \<Rightarrow> string \<Rightarrow> upstream \<Rightarrow> response" where
  "respond req serviceType up =
     (let contentType = (case js_or (up_content_type up) (Some []) of Some t \<Rightarrow> t | None \<Rightarrow> [])
      in if sublist ''application/json'' contentType then
           (case up_json up of
              Inl e \<Rightarrow> proxy_failed e
            | Inr data \<Rightarrow>
                (case rewriteJson (origin req) serviceType (collectionOf (searchParams req)) data of
                   Inl e \<Rightarrow> proxy_failed e
                 | Inr cleaned \<Rightarrow>
                     \<lparr>status = up_status up, headers = data_headers contentType, body = cleaned\<rparr>))
         else \<lparr>status = up_status up, headers = data_headers contentType, body = up_body up\<rparr>)"


section \<open>Properties of the service worker\<close>

lemma fold_delete_filter:
  "fold (\<lambda>k s. if P k then s else caches_delete k s) ks cs
     = filter (\<lambda>e. P (fst e) \<or> fst e \<notin> set ks) cs"
proof (induction ks arbitrary: cs)
  case Nil
  then show ?case by simp
next
  case (Cons k ks)
  show ?case
  proof (cases "P k")
    case True
    then show ?thesis
      using Cons.IH [of cs] by (auto intro: filter_cong)
  next
    case False
    then show ?thesis
      using Cons.IH [of "caches_delete k cs"]
      by (auto simp: caches_delete_def intro: filter_cong)
  qed
qed

lemma activate_filter:
  "activate ver cs = filter (\<lambda>e. fst e = APP_CACHE ver \<or> fst e = RUNTIME_CACHE ver) cs"
proof -
  let ?P = "\<lambda>k. k = APP_CACHE ver \<or> k = RUNTIME_CACHE ver"
  have "activate ver cs = filter (\<lambda>e. ?P (fst e) \<or> fst e \<notin> set (caches_keys cs)) cs"
    unfolding activate_def by (rule fold_delete_filter)
  also have "\<dots> = filter (\<lambda>e. ?P (fst e)) cs"
    by (rule filter_cong) (auto simp: caches_keys_def)
  finally show ?thesis .
qed

lemma card_filter_two:
  "card (set (filter (\<lambda>n. n = a \<or> n = b) xs)) \<le> 2"
proof -
  have "card (set (filter (\<lambda>n. n = a \<or> n = b) xs)) \<le> card {a, b}"
    by (rule card_mono) auto
  also have "\<dots> \<le> 2"
    by (simp add: card_insert_if)
  finally show ?thesis .
qed

lemma distinct_filter_two:
  "distinct xs \<Longrightarrow> length (filter (\<lambda>n. n = a \<or> n = b) xs) \<le> 2"
proof -
  assume d: "distinct xs"
  have "distinct (filter (\<lambda>n. n = a \<or> n = b) xs)" using d by simp
  then have "length (filter (\<lambda>n. n = a \<or> n = b) xs) = card (set (filter (\<lambda>n. n = a \<or> n = b) xs))"
    by (rule distinct_card [symmetric])
  also have "\<dots> \<le> 2"
    by (rule card_filter_two)
  finally show ?thesis .
qed

lemma keys_filter:
  "caches_keys (filter (\<lambda>e. Q (fst e)) cs) = filter Q (caches_keys cs)"
  by (induction cs) (auto simp: caches_keys_def)

text \<open>
  C4. Activation keeps exactly the stores named by the current app and runtime names and
  deletes every other store; the surviving stores keep their contents. At most two
  distinct names survive (and at most two stores, names being unique). With current
  version \<open>v1\<close> and the stores app-v1, runtime-v1, app-v0, runtime-v0 and
  unrelated-cache (the app and runtime names being the ones the worker derives from the
  version tag), exactly the app-v1 and runtime-v1 stores remain.
\<close>

theorem activate_keeps_current_stores:
  "activate ver cs = filter (\<lambda>e. fst e = APP_CACHE ver \<or> fst e = RUNTIME_CACHE ver) cs
   \<and> card (set (caches_keys (activate ver cs))) \<le> 2
   \<and> (distinct (caches_keys cs) \<longrightarrow> length (activate ver cs) \<le> 2)
   \<and> activate ''v1''
        [(APP_CACHE ''v1'', a1), (RUNTIME_CACHE ''v1'', r1), (APP_CACHE ''v0'', a0),
         (RUNTIME_CACHE ''v0'', r0), (''unrelated-cache'', u)]
      = [(APP_CACHE ''v1'', a1), (RUNTIME_CACHE ''v1'', r1)]"
proof -
  let ?Q = "\<lambda>n. n = APP_CACHE ver \<or> n = RUNTIME_CACHE ver"
  have keys: "caches_keys (activate ver cs) = filter ?Q (caches_keys cs)"
    unfolding activate_filter by (rule keys_filter)
  have two: "card (set (caches_keys (activate ver cs))) \<le> 2"
    unfolding keys by (rule card_filter_two)
  have len: "length (activate ver cs) \<le> 2" if "distinct (caches_keys cs)"
  proof -
    have "length (activate ver cs) = length (caches_keys (activate ver cs))"
      by (simp add: caches_keys_def)
    also have "\<dots> \<le> 2"
      unfolding keys using that by (rule distinct_filter_two)
    finally show ?thesis .
  qed
  have ex: "activate ''v1''
        [(APP_CACHE ''v1'', a1), (RUNTIME_CACHE ''v1'', r1), (APP_CACHE ''v0'', a0),
         (RUNTIME_CACHE ''v0'', r0), (''unrelated-cache'', u)]
      = [(APP_CACHE ''v1'', a1), (RUNTIME_CACHE ''v1'', r1)]"
    by (simp add: activate_filter APP_CACHE_def RUNTIME_CACHE_def)
  from activate_filter two len ex show ?thesis by blast
qed

theorem activate_keeps_current_stores_witness:
  "distinct (caches_keys [(''mapsketch-app-v1.2.0'', Map.empty), (''mapsketch-app-v1.1.0'', Map.empty),
                          (''mapsketch-runtime-v1.2.0'', Map.empty)])
   \<and> activate VERSION [(''mapsketch-app-v1.2.0'', Map.empty), (''mapsketch-app-v1.1.0'', Map.empty),
                        (''mapsketch-runtime-v1.2.0'', Map.empty)]
       = [(''mapsketch-app-v1.2.0'', Map.empty), (''mapsketch-runtime-v1.2.0'', Map.empty)]
   \<and> length (activate VERSION [(''mapsketch-app-v1.2.0'', Map.empty), (''mapsketch-app-v1.1.0'', Map.empty),
                        (''mapsketch-runtime-v1.2.0'', Map.empty)]) \<le> 2"
  using activate_keeps_current_stores
    [of VERSION "[(''mapsketch-app-v1.2.0'', Map.empty), (''mapsketch-app-v1.1.0'', Map.empty),
                  (''mapsketch-runtime-v1.2.0'', Map.empty)]"]
  by (simp add: caches_keys_def VERSION_def APP_CACHE_def RUNTIME_CACHE_def)

lemma map_of_cache_put:
  "map_of (cache_put n rq res cs) n = map_option (\<lambda>c. c(rq \<mapsto> res)) (map_of cs n)"
  by (induction cs) (auto simp: cache_put_def)

lemma map_of_caches_open:
  "map_of (snd (caches_open n cs)) n = Some (fst (caches_open n cs))"
  by (auto simp: caches_open_def map_add_def split: option.splits)

lemma fst_caches_open:
  "fst (caches_open n cs) = (case map_of cs n of Some c \<Rightarrow> c | None \<Rightarrow> Map.empty)"
  by (simp add: caches_open_def split: option.splits)

text \<open>
  C10. A request for the root path or for a path ending in /index.html takes the
  network-first branch. When its fetch resolves with a response, of whatever status,
  that response is returned and afterwards the app store holds it under the request
  (a 404 or a 500 is stored and served like a 200). Only when the fetch rejects is the
  answer taken from the app store, or is the network-error response when the store has
  no copy.
\<close>

theorem network_first_stores_any_status:
  assumes "pathname = ''/'' \<or> suffix ''/index.html'' pathname"
  shows "classify_fetch pathname host = NetworkFirst
     \<and> fst (network_first ver rq (Fulfilled res) cs) = res
     \<and> (\<exists>c. map_of (snd (network_first ver rq (Fulfilled res) cs)) (APP_CACHE ver) = Some c
             \<and> c rq = Some res)
     \<and> fst (network_first ver rq Rejected cs)
         = (case map_of cs (APP_CACHE ver) of
              None \<Rightarrow> NetworkError
            | Some c \<Rightarrow> (case c rq of None \<Rightarrow> NetworkError | Some hit \<Rightarrow> hit))"
proof -
  have a: "classify_fetch pathname host = NetworkFirst"
    using assms by (auto simp: classify_fetch_def)
  have b: "fst (network_first ver rq (Fulfilled res) cs) = res"
    by (simp add: network_first_def split: prod.splits)
  have "snd (network_first ver rq (Fulfilled res) cs)
          = cache_put (APP_CACHE ver) rq res (snd (caches_open (APP_CACHE ver) cs))"
    by (simp add: network_first_def split: prod.splits)
  then have "map_of (snd (network_first ver rq (Fulfilled res) cs)) (APP_CACHE ver)
          = Some ((fst (caches_open (APP_CACHE ver) cs))(rq \<mapsto> res))"
    by (simp add: map_of_cache_put map_of_caches_open)
  then have c: "\<exists>c. map_of (snd (network_first ver rq (Fulfilled res) cs)) (APP_CACHE ver) = Some c
             \<and> c rq = Some res"
    by simp
  have d: "fst (network_first ver rq Rejected cs)
         = (case map_of cs (APP_CACHE ver) of
              None \<Rightarrow> NetworkError
            | Some c \<Rightarrow> (case c rq of None \<Rightarrow> NetworkError | Some hit \<Rightarrow> hit))"
    by (simp add: network_first_def caches_open_def split: prod.splits option.splits)
  from a b c d show ?thesis by blast
qed

theorem network_first_stores_any_status_witness:
  "(''/app/index.html'' = ''/'' \<or> suffix ''/index.html'' ''/app/index.html'')
   \<and> classify_fetch ''/app/index.html'' ''example.org'' = NetworkFirst
   \<and> fst (network_first VERSION ''https://example.org/app/index.html''
            (Fulfilled (HttpResponse 404 ''gone'')) []) = HttpResponse 404 ''gone''
   \<and> fst (network_first VERSION ''https://example.org/app/index.html'' Rejected []) = NetworkError"
proof -
  have h: "''/app/index.html'' = ''/'' \<or> suffix ''/index.html'' ''/app/index.html''"
    by (simp add: suffix_def)
  show ?thesis
    using h network_first_stores_any_status
      [OF h, of "''example.org''" VERSION "''https://example.org/app/index.html''"
         "HttpResponse 404 ''gone''" "[]"]
    by simp
qed

section \<open>Properties of the region resolver\<close>

lemmas parse_defs = parseFloat_def take_sign_def is_ws_def is_digit_def digit_val_def
  digits_val_def exponent_part_def inf_of_sign_def

lemmas region_defs = detectRegion_def bboxCenter_def toLonLat_def classifyRegion_def jgt_def

lemma jmul_commute: "jmul x y = jmul y x"
  by (cases x; cases y) (auto simp: inf_of_sign_def)

lemma originShift_eq:
  "jdiv (jmul (jmul (Fin 2) Math_PI) (Fin 6378137)) (Fin 2.0) = jmul Math_PI (Fin 6378137)"
  by (simp add: Math_PI_def)




text \<open>
  The other rows of the cascade on concrete boxes, and a box whose first and third
  fields are not numbers: its longitude is NaN, its latitude is 60, and the first rule
  gives scotland.
\<close>

lemma detectRegion_examples:
  "detectRegion ''-6.5,54.4,-5.5,54.6'' = Northern_Ireland"
  "detectRegion ''-0.2,51.4,0,51.6'' = England"
  "detectRegion ''-4,56,-3,57'' = Scotland"
  "detectRegion ''abc,60,def,60'' = Scotland"
  "detectRegion ''a,b,c,d'' = England"
  "detectRegion ''1,2,3,4,5'' = England"
  by (simp_all add: region_defs parse_defs)

text \<open>
  C3. The centre \<open>(x, y)\<close> is converted exactly as the specification's formula says: the
  transform of the source and the transform written from the specification agree on
  every pair of numbers. On finite coordinates: when \<open>|x| > 20000\<close> or \<open>|y| > 20000\<close>
  the result is \<open>lon = (x / (\<pi> \<cdot> 6378137)) \<cdot> 180\<close> and
  \<open>lat = (2 \<cdot> atan(exp((y / (\<pi> \<cdot> 6378137)) \<cdot> \<pi>)) - \<pi>/2) \<cdot> (180/\<pi>)\<close>, and otherwise it is
  \<open>(x, y)\<close> unchanged.
\<close>

theorem toLonLat_is_spec_transform:
  "toLonLat x y = spec_transform x y
   \<and> toLonLat (Fin a) (Fin b) =
       (if \<bar>a\<bar> > 20000 \<or> \<bar>b\<bar> > 20000 then
          (Fin (a / (pi * 6378137) * 180),
           Fin ((2 * arctan (exp (b / (pi * 6378137) * pi)) - pi / 2) * (180 / pi)))
        else (Fin a, Fin b))"
proof
  show "toLonLat x y = spec_transform x y"
    unfolding toLonLat_def spec_transform_def Let_def originShift_eq
    by (simp add: jmul_commute [of "Fin 2"])
  show "toLonLat (Fin a) (Fin b) =
       (if \<bar>a\<bar> > 20000 \<or> \<bar>b\<bar> > 20000 then
          (Fin (a / (pi * 6378137) * 180),
           Fin ((2 * arctan (exp (b / (pi * 6378137) * pi)) - pi / 2) * (180 / pi)))
        else (Fin a, Fin b))"
    by (simp add: toLonLat_def Math_PI_def jgt_def jsub_def Let_def)
qed

theorem toLonLat_is_spec_transform_witness:
  "toLonLat (Fin 40000) (Fin 0) = (Fin (40000 / (pi * 6378137) * 180), Fin 0)
   \<and> toLonLat (Fin (- 3)) (Fin 52) = (Fin (- 3), Fin 52)
   \<and> spec_transform (Fin (- 3)) NaN = (Fin (- 3), NaN)"
proof -
  have a: "toLonLat (Fin 40000) (Fin 0) = (Fin (40000 / (pi * 6378137) * 180), Fin 0)"
    using toLonLat_is_spec_transform [of "Fin 40000" "Fin 0" 40000 0, THEN conjunct2]
    by (simp add: arctan_one)
  have b: "toLonLat (Fin (- 3)) (Fin 52) = (Fin (- 3), Fin 52)"
    using toLonLat_is_spec_transform [of "Fin (- 3)" "Fin 52" "- 3" 52, THEN conjunct2]
    by simp
  have "toLonLat (Fin (- 3)) NaN = (Fin (- 3), NaN)"
    by (simp add: toLonLat_def jgt_def)
  then have c: "spec_transform (Fin (- 3)) NaN = (Fin (- 3), NaN)"
    using toLonLat_is_spec_transform [of "Fin (- 3)" NaN 0 0, THEN conjunct1]
    by simp
  from a b c show ?thesis by simp
qed

section \<open>Properties of the redaction pass\<close>

lemmas json_defs = quote_def escape_char_def hex_digit_def

lemma dropWhile_head: "dropWhile P s = [] \<or> \<not> P (hd (dropWhile P s))"
  by (metis hd_dropWhile)

text \<open>After a dropped match the scan resumes at a quote, at an ampersand or at the end.\<close>

lemma strip_key_head:
  "s = [] \<or> \<not> key_char (hd s) \<Longrightarrow> strip_key d s = [] \<or> \<not> key_char (hd (strip_key d s))"
proof (induction d s rule: strip_key.induct)
  case (1 d)
  then show ?case by simp
next
  case (2 d c cs)
  show ?case
  proof (cases "key_at d (c # cs)")
    case True
    with 2(1) [OF True dropWhile_head] show ?thesis by simp
  next
    case False
    with 2(3) show ?thesis by simp
  qed
qed

text \<open>A value character at the head of the output was at the head of the input.\<close>

lemma strip_key_Cons:
  assumes "strip_key d s = x # ys" and "key_char x"
  shows "\<exists>s'. s = x # s' \<and> strip_key d s' = ys"
proof (cases s)
  case Nil
  with assms show ?thesis by simp
next
  case (Cons c cs)
  show ?thesis
  proof (cases "key_at d (c # cs)")
    case True
    let ?r = "dropWhile key_char (drop 4 cs)"
    have "strip_key d ?r = [] \<or> \<not> key_char (hd (strip_key d ?r))"
      using dropWhile_head by (rule strip_key_head)
    moreover have "strip_key d ?r = x # ys"
      using assms(1) Cons True by simp
    ultimately show ?thesis using assms(2) by simp
  next
    case False
    with assms Cons show ?thesis by simp
  qed
qed

lemma key_at_unfold:
  "key_at d s \<longleftrightarrow>
     (\<exists>v rest. s = d # CHR ''k'' # CHR ''e'' # CHR ''y'' # CHR ''='' # v # rest \<and> key_char v)"
proof
  assume k: "key_at d s"
  then obtain c cs where s: "s = c # cs" by (cases s) (auto simp: key_at_def)
  with k have c: "c = d" and t: "take 4 cs = ''key=''" and n: "drop 4 cs \<noteq> []"
    and v: "key_char (hd (drop 4 cs))"
    by (auto simp: key_at_def)
  have "cs = take 4 cs @ drop 4 cs" by simp
  also have "\<dots> = ''key='' @ hd (drop 4 cs) # tl (drop 4 cs)"
    using t n by simp
  finally have "s = d # CHR ''k'' # CHR ''e'' # CHR ''y'' # CHR ''='' # hd (drop 4 cs) # tl (drop 4 cs)"
    using s c by simp
  with v show "\<exists>v rest. s = d # CHR ''k'' # CHR ''e'' # CHR ''y'' # CHR ''='' # v # rest \<and> key_char v"
    by blast
next
  assume "\<exists>v rest. s = d # CHR ''k'' # CHR ''e'' # CHR ''y'' # CHR ''='' # v # rest \<and> key_char v"
  then show "key_at d s" by (auto simp: key_at_def)
qed

text \<open>Dropping matches of one pattern never brings a match of either pattern together.\<close>

lemma key_at_strip:
  assumes "key_at d' (c # strip_key d cs)"
  shows "key_at d' (c # cs)"
proof -
  from assms obtain v rest where
    c: "c = d'" and eq: "strip_key d cs = CHR ''k'' # CHR ''e'' # CHR ''y'' # CHR ''='' # v # rest"
    and v: "key_char v"
    unfolding key_at_unfold by auto
  from strip_key_Cons [OF eq] obtain s1 where
    s1: "cs = CHR ''k'' # s1" "strip_key d s1 = CHR ''e'' # CHR ''y'' # CHR ''='' # v # rest"
    by (auto simp: key_char_def)
  from strip_key_Cons [OF s1(2)] obtain s2 where
    s2: "s1 = CHR ''e'' # s2" "strip_key d s2 = CHR ''y'' # CHR ''='' # v # rest"
    by (auto simp: key_char_def)
  from strip_key_Cons [OF s2(2)] obtain s3 where
    s3: "s2 = CHR ''y'' # s3" "strip_key d s3 = CHR ''='' # v # rest"
    by (auto simp: key_char_def)
  from strip_key_Cons [OF s3(2)] obtain s4 where
    s4: "s3 = CHR ''='' # s4" "strip_key d s4 = v # rest"
    by (auto simp: key_char_def)
  from strip_key_Cons [OF s4(2) v] obtain s5 where
    s5: "s4 = v # s5"
    by auto
  show ?thesis
    unfolding key_at_unfold using c s1(1) s2(1) s3(1) s4(1) s5 v by blast
qed

lemma has_key_dropWhile: "\<not> has_key d s \<Longrightarrow> \<not> has_key d (dropWhile P s)"
  by (induction s) auto

lemma has_key_drop: "\<not> has_key d s \<Longrightarrow> \<not> has_key d (drop n s)"
  by (induction s arbitrary: n) (auto simp: drop_Cons split: nat.splits)

lemma strip_key_keeps_clean:
  "\<not> has_key d' s \<Longrightarrow> \<not> has_key d' (strip_key d s)"
proof (induction d s rule: strip_key.induct)
  case (1 d)
  then show ?case by simp
next
  case (2 d c cs)
  show ?case
  proof (cases "key_at d (c # cs)")
    case True
    from 2(3) have "\<not> has_key d' cs" by simp
    then have "\<not> has_key d' (dropWhile key_char (drop 4 cs))"
      by (intro has_key_dropWhile has_key_drop)
    with 2(1) [OF True] True show ?thesis by simp
  next
    case False
    from 2(3) have a: "\<not> key_at d' (c # cs)" and b: "\<not> has_key d' cs" by simp_all
    from a have "\<not> key_at d' (c # strip_key d cs)"
      using key_at_strip by blast
    with 2(2) [OF False b] False show ?thesis by simp
  qed
qed

lemma strip_key_clean:
  "\<not> has_key d (strip_key d s)"
proof (induction d s rule: strip_key.induct)
  case (1 d)
  then show ?case by simp
next
  case (2 d c cs)
  show ?case
  proof (cases "key_at d (c # cs)")
    case True
    with 2(1) show ?thesis by simp
  next
    case False
    then have "\<not> key_at d (c # strip_key d cs)"
      using key_at_strip by blast
    with 2(2) [OF False] False show ?thesis by simp
  qed
qed

lemma redact_clean:
  "\<not> has_key (CHR ''?'') (redact t) \<and> \<not> has_key (CHR ''&'') (redact t)"
  unfolding redact_def
  by (simp add: strip_key_clean strip_key_keeps_clean)

lemma sublist_has_key:
  assumes "sublist (d # ''key='' @ v # w) s" and "key_char v"
  shows "has_key d s"
proof -
  from assms(1) obtain ps ss where s: "s = ps @ (d # ''key='' @ v # w) @ ss"
    by (auto simp: sublist_def)
  have "has_key d (ps @ (d # ''key='' @ v # w) @ ss)"
    by (induction ps) (auto simp: key_at_def assms(2))
  with s show ?thesis by simp
qed

text \<open>
  C2, as the code has it. The text that the rewriter returns has no place where
  \<^verbatim>\<open>?key=\<close> or \<^verbatim>\<open>&key=\<close> is followed by a character other than a double quote
  and an ampersand; so it has no occurrence of \<^verbatim>\<open>?key=ABC123\<close> and none of
  \<^verbatim>\<open>&key=ABC123\<close>, wherever these stood in the body. Other occurrences of
  \<^verbatim>\<open>key=\<close> are not touched.
\<close>

theorem redact_removes_key_parameters:
  assumes "rewriteJson org serviceType collectionId data = Inr out"
  shows "\<not> has_key (CHR ''?'') out \<and> \<not> has_key (CHR ''&'') out
    \<and> (key_char v \<longrightarrow> \<not> sublist (''?key='' @ v # w) out \<and> \<not> sublist (''&key='' @ v # w) out)
    \<and> \<not> sublist ''?key=ABC123'' out \<and> \<not> sublist ''&key=ABC123'' out"
proof -
  from assms obtain t where out: "out = redact t"
    by (auto simp: rewriteJson_def split: sum.splits)
  have q: "\<not> has_key (CHR ''?'') out" and a: "\<not> has_key (CHR ''&'') out"
    unfolding out using redact_clean by blast+
  have g: "\<not> sublist (''?key='' @ v' # w') out \<and> \<not> sublist (''&key='' @ v' # w') out"
    if "key_char v'" for v' w'
    using q a sublist_has_key [of "CHR ''?''" v' w' out] sublist_has_key [of "CHR ''&''" v' w' out] that
    by auto
  have "key_char (CHR ''A'')" by (simp add: key_char_def)
  from g [OF this, of "''BC123''"] g q a show ?thesis by simp
qed

theorem redact_removes_key_parameters_witness:
  "rewriteJson ''https://proxy.example'' ''tiles'' ''ngd-base''
      (JObj [(''sprite'', JStr ''https://api.os.uk/sprites?key=ABC123''),
             (''glyphs'', JStr ''https://api.os.uk/fonts?srs=3857&key=ABC123'')])
     = Inr (stringify (JObj [(''sprite'', JStr ''https://api.os.uk/sprites''),
                             (''glyphs'', JStr ''https://api.os.uk/fonts?srs=3857'')]))
   \<and> \<not> sublist ''key='' (stringify (JObj [(''sprite'', JStr ''https://api.os.uk/sprites''),
                             (''glyphs'', JStr ''https://api.os.uk/fonts?srs=3857'')]))"
proof -
  have r: "rewriteJson ''https://proxy.example'' ''tiles'' ''ngd-base''
      (JObj [(''sprite'', JStr ''https://api.os.uk/sprites?key=ABC123''),
             (''glyphs'', JStr ''https://api.os.uk/fonts?srs=3857&key=ABC123'')])
     = Inr (stringify (JObj [(''sprite'', JStr ''https://api.os.uk/sprites''),
                             (''glyphs'', JStr ''https://api.os.uk/fonts?srs=3857'')]))"
    by (simp add: rewriteJson_def rewriteStyle_def redact_def key_at_def key_char_def json_defs)
  have n: "\<not> sublist ''key='' (stringify (JObj [(''sprite'', JStr ''https://api.os.uk/sprites''),
                             (''glyphs'', JStr ''https://api.os.uk/fonts?srs=3857'')]))"
    by (simp add: json_defs sublist_code)
  from redact_removes_key_parameters [OF r] r n show ?thesis by simp
qed

text \<open>
  A body with \<^verbatim>\<open>&key=ABC123\<close> whose output still contains \<^verbatim>\<open>key=\<close>: the
  parameter \<^verbatim>\<open>apikey\<close> is none of the two patterns. And a \<^verbatim>\<open>&key=\<close> that
  only the first pass leaves in front of a quote stays.
\<close>

theorem key_text_remains_counterexample:
  "sublist ''&key=ABC123''
     (stringify (JObj [(''sprite'', JStr ''https://api.os.uk/sprites?apikey=1&key=ABC123'')]))
   \<and> rewriteJson ''https://proxy.example'' ''tiles'' ''ngd-base''
        (JObj [(''sprite'', JStr ''https://api.os.uk/sprites?apikey=1&key=ABC123'')])
       = Inr (stringify (JObj [(''sprite'', JStr ''https://api.os.uk/sprites?apikey=1'')]))
   \<and> sublist ''key='' (stringify (JObj [(''sprite'', JStr ''https://api.os.uk/sprites?apikey=1'')]))
   \<and> rewriteJson ''https://proxy.example'' ''tiles'' ''ngd-base''
        (JObj [(''sprite'', JStr ''https://api.os.uk/sprites&key=?key=ABC123'')])
       = Inr (stringify (JObj [(''sprite'', JStr ''https://api.os.uk/sprites&key='')]))"
  by (simp add: rewriteJson_def rewriteStyle_def redact_def key_at_def key_char_def json_defs
        sublist_code)

section \<open>Properties of the request classifier and of the LiDAR route\<close>

lemmas lower_defs = toLowerCase_def lower_char_def

lemma sp_has_get: "sp_has sp k \<longleftrightarrow> sp_get sp k \<noteq> None"
  by (simp add: sp_has_def sp_get_def map_of_eq_None_iff)

text \<open>
  C6, as the code has it. A request other than a preflight whose query has no
  \<^verbatim>\<open>service\<close> parameter and no \<^verbatim>\<open>BBOX\<close> or \<^verbatim>\<open>bbox\<close> parameter is
  answered at once, with no upstream request, by the status 400 and the JSON body of
  the two fields \<^verbatim>\<open>error\<close> and \<^verbatim>\<open>usage\<close>; the usage text names the three
  values tiles, features and lidar, and the body has no \<^verbatim>\<open>validTypes\<close> list (that
  list is in the answer to an unknown service value).
\<close>

theorem missing_service_400:
  assumes "req_method req \<noteq> ''OPTIONS''"
    and "\<not> sp_has (searchParams req) ''service''"
    and "\<not> sp_has (searchParams req) ''BBOX''"
    and "\<not> sp_has (searchParams req) ''bbox''"
  shows "fetch apiKey req = Respond missing_service
    \<and> status missing_service = 400
    \<and> body missing_service = stringify (JObj
        [(''error'', JStr ''Missing service parameter''),
         (''usage'', JStr ''Add ?service=tiles, ?service=features, or ?service=lidar'')])
    \<and> \<not> sublist ''validTypes'' (body missing_service)"
proof -
  from assms(2) have "sp_get (searchParams req) ''service'' = None"
    by (simp add: sp_has_get)
  with assms have "fetch apiKey req = Respond missing_service"
    by (simp add: fetch_def truthy_str_def Let_def)
  moreover have "\<not> sublist ''validTypes'' (body missing_service)"
    by (simp add: missing_service_def json_defs sublist_code)
  ultimately show ?thesis
    by (simp add: missing_service_def)
qed

theorem missing_service_400_witness:
  "fetch ''k'' \<lparr>req_method = ''GET'', origin = ''https://proxy.example'',
                searchParams = [(''collection'', ''ngd-base'')]\<rparr>
     = Respond missing_service"
  using missing_service_400
    [of "\<lparr>req_method = ''GET'', origin = ''https://proxy.example'',
           searchParams = [(''collection'', ''ngd-base'')]\<rparr>" "''k''"]
  by (simp add: sp_has_def)

text \<open>
  The answer to a GET without any parameter: its body does not hold the list
  \<^verbatim>\<open>["tiles","features","lidar"]\<close>. And a preflight without any parameter is
  answered by the status 200.
\<close>

theorem missing_service_counterexample:
  "fetch ''k'' \<lparr>req_method = ''GET'', origin = ''https://proxy.example'', searchParams = []\<rparr>
     = Respond missing_service
   \<and> \<not> sublist (stringify (JArr [JStr ''tiles'', JStr ''features'', JStr ''lidar'']))
          (body missing_service)
   \<and> fetch ''k'' \<lparr>req_method = ''OPTIONS'', origin = ''https://proxy.example'', searchParams = []\<rparr>
     = Respond preflight
   \<and> status preflight = 200"
  by (simp add: fetch_def sp_get_def sp_has_def truthy_str_def missing_service_def preflight_def
        json_defs sublist_code)

text \<open>
  C7, as the code has it. A request other than a preflight that carries a
  \<^verbatim>\<open>BBOX\<close> or \<^verbatim>\<open>bbox\<close> parameter goes to the LiDAR handler, and so to a
  regional WMS, when it also carries a \<^verbatim>\<open>service\<close> or \<^verbatim>\<open>SERVICE\<close> parameter
  of any value; when it carries neither of the two it is rejected with the
  missing-service answer of status 400.
\<close>

theorem bbox_needs_service_param:
  assumes "req_method req \<noteq> ''OPTIONS''"
    and "sp_has (searchParams req) ''BBOX'' \<or> sp_has (searchParams req) ''bbox''"
  shows "(sp_has (searchParams req) ''SERVICE'' \<or> sp_has (searchParams req) ''service''
            \<longrightarrow> fetch apiKey req = handleLidarRequest (searchParams req))
     \<and> (\<not> sp_has (searchParams req) ''SERVICE'' \<and> \<not> sp_has (searchParams req) ''service''
            \<longrightarrow> fetch apiKey req = Respond missing_service)
     \<and> (\<exists>u ps. handleLidarRequest (searchParams req) = FetchWMS u ps)"
proof -
  have a: "fetch apiKey req = handleLidarRequest (searchParams req)"
    if "sp_has (searchParams req) ''SERVICE'' \<or> sp_has (searchParams req) ''service''"
    using assms that by (simp add: fetch_def Let_def)
  have b: "fetch apiKey req = Respond missing_service"
    if "\<not> sp_has (searchParams req) ''SERVICE'' \<and> \<not> sp_has (searchParams req) ''service''"
  proof -
    from that have "sp_get (searchParams req) ''service'' = None"
      by (simp add: sp_has_get)
    with assms that show ?thesis
      by (simp add: fetch_def truthy_str_def Let_def)
  qed
  have c: "\<exists>u ps. handleLidarRequest (searchParams req) = FetchWMS u ps"
    by (simp add: handleLidarRequest_def Let_def)
  from a b c show ?thesis by blast
qed

theorem bbox_needs_service_param_witness:
  "fetch ''k'' \<lparr>req_method = ''GET'', origin = ''https://proxy.example'',
       searchParams = [(''SERVICE'', ''WMS''), (''BBOX'', ''-3.2,51.9,-2.8,52.1'')]\<rparr>
     = handleLidarRequest [(''SERVICE'', ''WMS''), (''BBOX'', ''-3.2,51.9,-2.8,52.1'')]"
  using bbox_needs_service_param
    [of "\<lparr>req_method = ''GET'', origin = ''https://proxy.example'',
           searchParams = [(''SERVICE'', ''WMS''), (''BBOX'', ''-3.2,51.9,-2.8,52.1'')]\<rparr>" "''k''"]
  by (simp add: sp_has_def)

text \<open>A GET that carries only a \<^verbatim>\<open>BBOX\<close> gets the missing-service answer.\<close>

theorem bbox_without_service_counterexample:
  "fetch ''k'' \<lparr>req_method = ''GET'', origin = ''https://proxy.example'',
       searchParams = [(''BBOX'', ''-3.2,51.9,-2.8,52.1'')]\<rparr>
     = Respond missing_service
   \<and> status missing_service = 400"
  by (simp add: fetch_def sp_get_def sp_has_def truthy_str_def missing_service_def)

lemma sp_has_mem: "p \<in> set sp \<Longrightarrow> sp_has sp (fst p)"
  by (auto simp: sp_has_def)

lemma set_sp_set: "set (sp_set sp k v) = insert (k, v) {p \<in> set sp. fst p \<noteq> k}"
  by (induction sp) auto

lemma sp_get_sp_set: "sp_get (sp_set sp k v) k = Some v"
  by (induction sp) (auto simp: sp_get_def)

text \<open>
  What the outbound parameters do hold: the regional layer under the name
  \<^verbatim>\<open>LAYERS\<close>, and every pair of the request that is neither the lidar marker nor
  named \<^verbatim>\<open>LAYERS\<close>.
\<close>

lemma wmsParams_LAYERS: "sp_get (wmsParams sp lyrs) ''LAYERS'' = Some lyrs"
  by (simp add: wmsParams_def Let_def sp_get_sp_set)

lemma wmsParams_copies:
  assumes "p \<in> set sp" and "fst p \<noteq> ''LAYERS''"
    and "\<not> (toLowerCase (fst p) = ''service'' \<and> toLowerCase (snd p) = ''lidar'')"
  shows "p \<in> set (wmsParams sp lyrs)"
proof -
  let ?copied = "filter (\<lambda>p. \<not> (toLowerCase (fst p) = ''service'' \<and> toLowerCase (snd p) = ''lidar'')) sp"
  from assms have c: "p \<in> set ?copied" by simp
  show ?thesis
  proof (cases "\<not> sp_has ?copied ''SERVICE'' \<and> \<not> sp_has ?copied ''service''")
    case True
    from c have "sp_has ?copied (fst p)" by (rule sp_has_mem)
    with True have "fst p \<noteq> ''SERVICE''" by auto
    with c assms(2) True show ?thesis
      by (auto simp: wmsParams_def Let_def set_sp_set)
  next
    case False
    with c assms(2) show ?thesis
      by (auto simp: wmsParams_def Let_def set_sp_set)
  qed
qed

text \<open>
  C8. On the LiDAR request \<^verbatim>\<open>?service=lidar&bbox=-3.2,51.9,-2.8,52.1&layers=other\<close>
  the outbound WMS request leaves the marker out, gets \<^verbatim>\<open>SERVICE=WMS\<close> and the
  regional layer under \<^verbatim>\<open>LAYERS\<close>, and still carries the caller's
  \<^verbatim>\<open>layers=other\<close>: the override replaces the upper-case name only.
\<close>

theorem lowercase_layers_forwarded:
  "fetch ''k'' \<lparr>req_method = ''GET'', origin = ''https://proxy.example'',
       searchParams = [(''service'', ''lidar''), (''bbox'', ''-3.2,51.9,-2.8,52.1''),
                       (''layers'', ''other'')]\<rparr>
     = FetchWMS ''https://environment.data.gov.uk/spatialdata/lidar-composite-digital-terrain-model-dtm-1m/wms''
         [(''bbox'', ''-3.2,51.9,-2.8,52.1''), (''layers'', ''other''), (''SERVICE'', ''WMS''),
          (''LAYERS'', ''Lidar_Composite_Hillshade_DTM_1m'')]"
proof -
  have r: "detectRegion ''-3.2,51.9,-2.8,52.1'' = Wales"
    by (simp add: region_defs parse_defs)
  show ?thesis
    by (simp add: fetch_def sp_get_def sp_has_def handleLidarRequest_def lidarRegion_def js_or_def r
        getWMSConfig_def wmsParams_def lower_defs)
qed

section \<open>Properties of the style rewrite\<close>



lemma array_index_word [simp]:
  "array_index ''sources'' = None" "array_index ''url'' = None" "array_index ''tiles'' = None"
  "array_index ''center'' = None" "array_index ''zoom'' = None"
  by (simp_all add: array_index_def is_digit_def digit_val_def)












text \<open>
  The handler hands a body to the rewriter exactly when the content type of the upstream
  answer mentions \<^verbatim>\<open>application/json\<close>; any other body is passed on as it came.
\<close>

lemma respond_json:
  assumes "up_content_type up = Some ct" and "sublist ''application/json'' ct"
    and "up_json up = Inr data"
    and "rewriteJson (origin req) serviceType (collectionOf (searchParams req)) data = Inr out"
  shows "respond req serviceType up
           = \<lparr>status = up_status up, headers = data_headers ct, body = out\<rparr>"
proof -
  from assms(2) have "ct \<noteq> []" by auto
  with assms show ?thesis
    by (simp add: respond_def js_or_def)
qed

lemma respond_not_json:
  assumes "up_content_type up = Some ct" and "\<not> sublist ''application/json'' ct"
  shows "body (respond req serviceType up) = up_body up"
  using assms by (simp add: respond_def js_or_def Let_def)

end
